theory Spec2Isabelle
  imports Complex_Main "HOL-Library.Word"
begin

section \<open>JavaScript values\<close>

text \<open>
  The extension (\<^verbatim>\<open>extension.js\<close>) is host-side glue between an editor panel, its
  embedded webview script and two REST endpoints. A JavaScript string is a sequence of
  UTF-16 code units; \<^verbatim>\<open>length\<close>, \<^verbatim>\<open>trim\<close> and the regular expression of the key
  gate all work on code units.
\<close>

type_synonym code_unit = "16 word"
type_synonym jsstring = "code_unit list"

text \<open>An ASCII literal of the source, as the code units it denotes.\<close>

definition str :: "string \<Rightarrow> jsstring" where
  "str s = map (\<lambda>c. of_nat (of_char c)) s"

text \<open>
  The values that cross the boundaries of the program (messages, configuration values,
  JSON response bodies). A number is the rational its finite double denotes; only its
  zero test is ever used. An object is the list of its own properties, each name once.
\<close>

datatype jsvalue =
    JUndefined
  | JNull
  | JBool bool
  | JNum rat
  | JStr jsstring
  | JArr "jsvalue list"
  | JObj "(jsstring \<times> jsvalue) list"

text \<open>Truthiness, as \<^verbatim>\<open>if (x)\<close>, \<^verbatim>\<open>!x\<close> and \<^verbatim>\<open>x || y\<close> test it.\<close>

fun truthy :: "jsvalue \<Rightarrow> bool" where
  "truthy JUndefined = False"
| "truthy JNull = False"
| "truthy (JBool b) = b"
| "truthy (JNum n) = (n \<noteq> 0)"
| "truthy (JStr s) = (s \<noteq> [])"
| "truthy (JArr xs) = True"
| "truthy (JObj kvs) = True"

record http_response =
  status :: int
  data :: jsvalue

text \<open>
  What a \<^verbatim>\<open>catch\<close> clause can receive: a \<^verbatim>\<open>TypeError\<close> raised by the language, the
  rejection of an HTTP call (with the response when the server answered, without one on a
  network failure), or an error of the editor host. Only \<^verbatim>\<open>error.response\<close> is ever
  read from it.
\<close>

datatype js_error =
    TypeError
  | AxiosError "http_response option"
  | HostError

fun error_response :: "js_error \<Rightarrow> http_response option" where
  "error_response (AxiosError r) = r"
| "error_response TypeError = None"
| "error_response HostError = None"

text \<open>
  Reading a property \<^verbatim>\<open>v.k\<close> for the names the program reads (\<^verbatim>\<open>command\<close>, \<^verbatim>\<open>apiKey\<close>,
  \<^verbatim>\<open>prompt\<close>, \<^verbatim>\<open>model\<close>, \<^verbatim>\<open>content\<close>; none is inherited from a prototype): it throws on
  \<^verbatim>\<open>undefined\<close> and \<^verbatim>\<open>null\<close>, and is \<^verbatim>\<open>undefined\<close> where the property is missing.
\<close>

fun get_prop :: "jsvalue \<Rightarrow> jsstring \<Rightarrow> js_error + jsvalue" where
  "get_prop JUndefined k = Inl TypeError"
| "get_prop JNull k = Inl TypeError"
| "get_prop (JObj kvs) k = Inr (case map_of kvs k of None \<Rightarrow> JUndefined | Some v \<Rightarrow> v)"
| "get_prop (JBool b) k = Inr JUndefined"
| "get_prop (JNum n) k = Inr JUndefined"
| "get_prop (JStr s) k = Inr JUndefined"
| "get_prop (JArr xs) k = Inr JUndefined"

text \<open>\<^verbatim>\<open>xs.map(f)\<close> with a callback that may throw: the first exception ends the loop.\<close>

fun map_throwing :: "('a \<Rightarrow> js_error + 'b) \<Rightarrow> 'a list \<Rightarrow> js_error + 'b list" where
  "map_throwing f [] = Inr []"
| "map_throwing f (x # xs) =
     (case f x of
        Inl e \<Rightarrow> Inl e
      | Inr y \<Rightarrow> (case map_throwing f xs of Inl e \<Rightarrow> Inl e | Inr ys \<Rightarrow> Inr (y # ys)))"

text \<open>
  \<^verbatim>\<open>v.map(f)\<close> on a value of unknown shape: only an array has a callable \<^verbatim>\<open>map\<close>; on
  every other value the call is a \<^verbatim>\<open>TypeError\<close>.
\<close>

fun array_map :: "(jsvalue \<Rightarrow> js_error + jsvalue) \<Rightarrow> jsvalue \<Rightarrow> js_error + jsvalue list" where
  "array_map f (JArr xs) = map_throwing f xs"
| "array_map f JUndefined = Inl TypeError"
| "array_map f JNull = Inl TypeError"
| "array_map f (JBool b) = Inl TypeError"
| "array_map f (JNum n) = Inl TypeError"
| "array_map f (JStr s) = Inl TypeError"
| "array_map f (JObj kvs) = Inl TypeError"

section \<open>The webview script\<close>

text \<open>
  \<^verbatim>\<open>String.prototype.trim\<close> removes white space and line terminators from both ends:
  TAB, LF, VT, FF, CR, SPACE, NBSP, the Unicode space separators, LS, PS and the BOM.
\<close>

definition isWhiteSpace :: "code_unit \<Rightarrow> bool" where
  "isWhiteSpace c \<longleftrightarrow>
     c = 0x0009 \<or> c = 0x000A \<or> c = 0x000B \<or> c = 0x000C \<or> c = 0x000D \<or> c = 0x0020 \<or>
     c = 0x00A0 \<or> c = 0x1680 \<or> (0x2000 \<le> c \<and> c \<le> 0x200A) \<or> c = 0x2028 \<or> c = 0x2029 \<or>
     c = 0x202F \<or> c = 0x205F \<or> c = 0x3000 \<or> c = 0xFEFF"

definition trim :: "jsstring \<Rightarrow> jsstring" where
  "trim s = rev (dropWhile isWhiteSpace (rev (dropWhile isWhiteSpace s)))"

text \<open>The character class \<^verbatim>\<open>[a-z0-9]\<close>.\<close>

definition lower_alnum :: "code_unit \<Rightarrow> bool" where
  "lower_alnum c \<longleftrightarrow> (0x61 \<le> c \<and> c \<le> 0x7A) \<or> (0x30 \<le> c \<and> c \<le> 0x39)"

text \<open>
  \<^verbatim>\<open>/^[a-z0-9]+$/.test(key)\<close>: without the \<^verbatim>\<open>m\<close> flag the anchors are the two ends of
  the string, so the test holds for the non-empty strings over the class.
\<close>

definition key_regex_test :: "jsstring \<Rightarrow> bool" where
  "key_regex_test key \<longleftrightarrow> key \<noteq> [] \<and> list_all lower_alnum key"

text \<open>
  A child of \<^verbatim>\<open>#chatDisplay\<close>: its class, and its text as the label followed by the
  message (whose conversion to a string is the browser's).
\<close>

record chat_div =
  div_className :: jsstring
  div_label :: jsstring
  div_message :: jsvalue

text \<open>
  The part of the page the script reads and writes, and the messages it has posted to the
  extension host with \<^verbatim>\<open>vscode.postMessage\<close>.
\<close>

record webview =
  apiKeyStatus_textContent :: jsstring
  apiKeyStatus_className :: jsstring
  apiKeySection_display :: jsstring
  chatSection_display :: jsstring
  promptInput_value :: jsstring
  modelSelect_options :: "jsvalue list"
  modelSelect_selectedIndex :: int
  chatDisplay :: "chat_div list"
  outbox :: "jsvalue list"

definition vscode_postMessage :: "jsvalue \<Rightarrow> webview \<Rightarrow> webview" where
  "vscode_postMessage m w = w\<lparr>outbox := outbox w @ [m]\<rparr>"

definition format_error_text :: jsstring where
  "format_error_text =
     str ''API key must be 30 characters long and contain only lowercase letters and numbers''"

text \<open>The \<^verbatim>\<open>input\<close> listener of the \<^verbatim>\<open>#apiKey\<close> field; \<open>v\<close> is \<^verbatim>\<open>e.target.value\<close>.\<close>

definition apiKey_input :: "jsstring \<Rightarrow> webview \<Rightarrow> webview" where
  "apiKey_input v w =
     (let key = trim v in
      if length key = 30 \<and> key_regex_test key then
        vscode_postMessage
          (JObj [(str ''command'', JStr (str ''validateApiKey'')), (str ''apiKey'', JStr key)])
          (w\<lparr>apiKeyStatus_textContent := str ''Validating API key...'',
             apiKeyStatus_className := []\<rparr>)
      else
        w\<lparr>apiKeyStatus_textContent := format_error_text,
           apiKeyStatus_className := str ''error''\<rparr>)"

definition appendMessage :: "jsvalue \<Rightarrow> jsstring \<Rightarrow> webview \<Rightarrow> webview" where
  "appendMessage msg type w =
     w\<lparr>chatDisplay := chatDisplay w @
        [\<lparr>div_className = str ''message '' @
             (if type = str ''user'' then str ''user-message'' else str ''assistant-message''),
           div_label = (if type = str ''user'' then str ''You: '' else str ''Assistant: ''),
           div_message = msg\<rparr>]\<rparr>"

definition sendPrompt :: "webview \<Rightarrow> webview" where
  "sendPrompt w =
     (let prompt = trim (promptInput_value w) in
      if prompt = [] then w
      else
        (vscode_postMessage
           (JObj [(str ''command'', JStr (str ''sendChat'')), (str ''prompt'', JStr prompt)])
           (appendMessage (JStr prompt) (str ''user'') w))\<lparr>promptInput_value := []\<rparr>)"

text \<open>
  The \<^verbatim>\<open>message\<close> listener of the window, for a message \<open>m\<close> of the host. Replacing the
  options of \<^verbatim>\<open>#modelSelect\<close> selects the first one (index \<open>- 1\<close> when there is none).
  An exception (reading \<^verbatim>\<open>command\<close> of \<^verbatim>\<open>null\<close>, \<^verbatim>\<open>models\<close> that is no array) ends the
  listener where it is raised.
\<close>

definition window_message :: "jsvalue \<Rightarrow> webview \<Rightarrow> webview" where
  "window_message m w =
     (case get_prop m (str ''command'') of
        Inl err \<Rightarrow> w
      | Inr c \<Rightarrow>
          if c = JStr (str ''apiKeyValidated'') then
            (let w1 = w\<lparr>apiKeySection_display := str ''none'',
                        chatSection_display := str ''block''\<rparr> in
             case get_prop m (str ''models'') of
               Inr (JArr models) \<Rightarrow>
                 w1\<lparr>modelSelect_options := models,
                    modelSelect_selectedIndex := (if models = [] then - 1 else 0)\<rparr>
             | _ \<Rightarrow> w1)
          else if c = JStr (str ''chatResponse'') then
            (case get_prop m (str ''content'') of
               Inl err \<Rightarrow> w
             | Inr content \<Rightarrow> appendMessage content (str ''assistant'') w)
          else if c = JStr (str ''error'') then
            (case get_prop m (str ''message'') of
               Inl err \<Rightarrow> w
             | Inr text \<Rightarrow>
                 w\<lparr>chatDisplay := chatDisplay w @
                    [\<lparr>div_className = str ''error'', div_label = [], div_message = text\<rparr>]\<rparr>)
          else w)"

text \<open>
  What can happen to the page: the user edits the key field, edits the prompt field,
  picks a model in the dropdown, clicks Send, presses a key in the prompt field, or the
  host posts a message.
\<close>

datatype webview_event =
    ApiKeyInput jsstring
  | PromptTyped jsstring
  | ModelSelected int
  | SendClicked
  | KeyPressed jsstring
  | HostMessage jsvalue

fun webview_step :: "webview_event \<Rightarrow> webview \<Rightarrow> webview" where
  "webview_step (ApiKeyInput v) w = apiKey_input v w"
| "webview_step (PromptTyped v) w = w\<lparr>promptInput_value := v\<rparr>"
| "webview_step (ModelSelected i) w = w\<lparr>modelSelect_selectedIndex := i\<rparr>"
| "webview_step SendClicked w = sendPrompt w"
| "webview_step (KeyPressed k) w = (if k = str ''Enter'' then sendPrompt w else w)"
| "webview_step (HostMessage m) w = window_message m w"

fun webview_run :: "webview_event list \<Rightarrow> webview \<Rightarrow> webview" where
  "webview_run [] w = w"
| "webview_run (ev # evs) w = webview_run evs (webview_step ev w)"

text \<open>
  The page as \<^verbatim>\<open>getWebviewContent\<close> builds it, with the displays the first version of
  the style sheet gives the two sections.
\<close>

definition getWebviewContent :: webview where
  "getWebviewContent =
     \<lparr>apiKeyStatus_textContent = [], apiKeyStatus_className = [],
      apiKeySection_display = [], chatSection_display = str ''none'',
      promptInput_value = [], modelSelect_options = [], modelSelect_selectedIndex = - 1,
      chatDisplay = [], outbox = []\<rparr>"

section \<open>The extension host\<close>

datatype http_method = GET | POST

record http_request =
  req_method :: http_method
  req_url :: jsstring
  req_headers :: "(jsstring \<times> jsvalue) list"
  req_body :: "jsvalue option"

text \<open>
  What the \<^verbatim>\<open>await\<close> of an HTTP call yields: the promise resolves with a response or
  rejects with an error that carries the response when there is one.
\<close>

datatype http_outcome =
    Resolved http_response
  | Rejected "http_response option"

text \<open>
  What the outside world answers while one webview message is handled: the outcome of the
  HTTP call, and whether the host rejects the configuration update. The handlers run
  one at a time: no other event is interleaved with the \<^verbatim>\<open>await\<close>s of a handler.
\<close>

record env =
  http :: http_outcome
  update_rejects :: bool

type_synonym panel = nat

text \<open>Everything the extension does to the outside, in the order it does it.\<close>

datatype effect =
    CreatePanel panel
  | RevealPanel panel
  | DisposePanel panel
  | PostMessage panel jsvalue
  | HttpRequest http_request
  | ConfigUpdate jsstring jsvalue

text \<open>
  The module variable \<^verbatim>\<open>currentPanel\<close>, the panels of the extension that the host keeps
  alive, the next panel the host will hand out, the configuration store, and the effects
  so far.
\<close>

record host_state =
  currentPanel :: "panel option"
  live :: "panel list"
  nextPanel :: panel
  config :: "jsstring \<rightharpoonup> jsvalue"
  trace :: "effect list"

definition emit :: "effect \<Rightarrow> host_state \<Rightarrow> host_state" where
  "emit e s = s\<lparr>trace := trace s @ [e]\<rparr>"

definition webview_postMessage :: "panel \<Rightarrow> jsvalue \<Rightarrow> host_state \<Rightarrow> host_state" where
  "webview_postMessage p m s = emit (PostMessage p m) s"

definition models_url :: jsstring where
  "models_url = str ''https://api.qbraid.com/api/chat/models''"

definition chat_url :: jsstring where
  "chat_url = str ''https://api.qbraid.com/api/chat''"

definition apiKey_setting :: jsstring where
  "apiKey_setting = str ''qbraidChat.apiKey''"

text \<open>\<^verbatim>\<open>getConfiguration().get(k)\<close>: \<^verbatim>\<open>undefined\<close> for a setting that has no value.\<close>

definition configuration_get :: "jsstring \<Rightarrow> host_state \<Rightarrow> jsvalue" where
  "configuration_get k s = (case config s k of None \<Rightarrow> JUndefined | Some v \<Rightarrow> v)"

text \<open>\<^verbatim>\<open>getConfiguration().update(k, v, true)\<close>: the value \<^verbatim>\<open>undefined\<close> removes the setting.\<close>

definition configuration_update :: "jsstring \<Rightarrow> jsvalue \<Rightarrow> host_state \<Rightarrow> host_state" where
  "configuration_update k v s =
     s\<lparr>config := (if v = JUndefined then (config s)(k := None) else (config s)(k \<mapsto> v))\<rparr>"

text \<open>\<^verbatim>\<open>error.response?.data\<close>\<close>

definition error_data :: "js_error \<Rightarrow> jsvalue" where
  "error_data e = (case error_response e of None \<Rightarrow> JUndefined | Some r \<Rightarrow> data r)"

text \<open>\<^verbatim>\<open>a || b\<close>\<close>

definition or_else :: "jsvalue \<Rightarrow> jsvalue \<Rightarrow> jsvalue" where
  "or_else a b = (if truthy a then a else b)"

definition error_message :: "jsvalue \<Rightarrow> jsvalue" where
  "error_message text = JObj [(str ''command'', JStr (str ''error'')), (str ''message'', text)]"

text \<open>The two \<^verbatim>\<open>catch\<close> clauses: \<^verbatim>\<open>if (panel)\<close> holds there, the panel being an object.\<close>

definition catch_post :: "panel \<Rightarrow> js_error \<Rightarrow> jsstring \<Rightarrow> host_state \<Rightarrow> host_state" where
  "catch_post p e fallback s =
     webview_postMessage p (error_message (or_else (error_data e) (JStr fallback))) s"

definition handleApiKeyValidation ::
    "env \<Rightarrow> jsvalue \<Rightarrow> panel option \<Rightarrow> host_state \<Rightarrow> host_state" where
  "handleApiKeyValidation e apiKey panel s =
     (case panel of
        None \<Rightarrow> s
      | Some p \<Rightarrow>
          (let s1 = emit (HttpRequest \<lparr>req_method = GET, req_url = models_url,
                            req_headers = [(str ''api-key'', apiKey)], req_body = None\<rparr>) s in
           case http e of
             Rejected r \<Rightarrow> catch_post p (AxiosError r) (str ''Failed to validate API key'') s1
           | Resolved response \<Rightarrow>
               if status response = 200 then
                 (case array_map (\<lambda>model. get_prop model (str ''model'')) (data response) of
                    Inl err \<Rightarrow> catch_post p err (str ''Failed to validate API key'') s1
                  | Inr models \<Rightarrow>
                      (let s2 = webview_postMessage p
                                  (JObj [(str ''command'', JStr (str ''apiKeyValidated'')),
                                         (str ''models'', JArr models)]) s1;
                           s3 = emit (ConfigUpdate apiKey_setting apiKey) s2 in
                       if update_rejects e then
                         catch_post p HostError (str ''Failed to validate API key'') s3
                       else configuration_update apiKey_setting apiKey s3))
               else s1))"

definition handleChatRequest ::
    "env \<Rightarrow> jsvalue \<Rightarrow> panel option \<Rightarrow> host_state \<Rightarrow> host_state" where
  "handleChatRequest e prompt panel s =
     (case panel of
        None \<Rightarrow> s
      | Some p \<Rightarrow>
          (let apiKey = configuration_get apiKey_setting s in
           if \<not> truthy apiKey then
             webview_postMessage p
               (error_message (JStr (str ''API key not found. Please enter your API key.''))) s
           else
             (let s1 = emit (HttpRequest \<lparr>req_method = POST, req_url = chat_url,
                               req_headers = [(str ''api-key'', apiKey),
                                          (str ''Content-Type'', JStr (str ''application/json''))],
                               req_body = Some (JObj [(str ''prompt'', prompt)])\<rparr>) s in
              case http e of
                Rejected r \<Rightarrow> catch_post p (AxiosError r) (str ''Failed to get chat response'') s1
              | Resolved response \<Rightarrow>
                  if status response = 200 then
                    (case get_prop (data response) (str ''content'') of
                       Inl err \<Rightarrow> catch_post p err (str ''Failed to get chat response'') s1
                     | Inr content \<Rightarrow>
                         webview_postMessage p
                           (JObj [(str ''command'', JStr (str ''chatResponse'')),
                                  (str ''content'', content)]) s1)
                  else s1)))"

text \<open>
  The listener of \<^verbatim>\<open>onDidReceiveMessage\<close>. When reading \<^verbatim>\<open>message.command\<close> throws, the
  listener's promise rejects and nothing has been done.
\<close>

definition onDidReceiveMessage :: "env \<Rightarrow> jsvalue \<Rightarrow> host_state \<Rightarrow> host_state" where
  "onDidReceiveMessage e message s =
     (if currentPanel s = None then s
      else
        (case get_prop message (str ''command'') of
           Inl err \<Rightarrow> s
         | Inr c \<Rightarrow>
             if c = JStr (str ''validateApiKey'') then
               (case get_prop message (str ''apiKey'') of
                  Inl err \<Rightarrow> s
                | Inr apiKey \<Rightarrow> handleApiKeyValidation e apiKey (currentPanel s) s)
             else if c = JStr (str ''sendChat'') then
               (case get_prop message (str ''prompt'') of
                  Inl err \<Rightarrow> s
                | Inr prompt \<Rightarrow> handleChatRequest e prompt (currentPanel s) s)
             else s))"

text \<open>The listener of \<^verbatim>\<open>onDidDispose\<close>.\<close>

definition onDidDispose :: "host_state \<Rightarrow> host_state" where
  "onDidDispose s = s\<lparr>currentPanel := None\<rparr>"

text \<open>
  \<^verbatim>\<open>vscode.window.createWebviewPanel\<close> hands out a new live panel; the extension stores it
  in \<^verbatim>\<open>currentPanel\<close>, sets its markup and registers the two listeners on it.
\<close>

definition createWebviewPanel :: "host_state \<Rightarrow> host_state" where
  "createWebviewPanel s =
     (let p = nextPanel s in
      emit (CreatePanel p) (s\<lparr>currentPanel := Some p, live := live s @ [p], nextPanel := Suc p\<rparr>))"

text \<open>The command \<^verbatim>\<open>qbraid-chat.openChat\<close>.\<close>

definition openChat :: "host_state \<Rightarrow> host_state" where
  "openChat s =
     (case currentPanel s of
        Some p \<Rightarrow> emit (RevealPanel p) s
      | None \<Rightarrow> createWebviewPanel s)"

text \<open>
  The host disposes a panel (\<^verbatim>\<open>panel.dispose()\<close>, or the user closing its tab): the panel
  stops being live and its \<^verbatim>\<open>onDidDispose\<close> listener runs. Disposing a panel that is not
  live does nothing.
\<close>

definition panel_dispose :: "panel \<Rightarrow> host_state \<Rightarrow> host_state" where
  "panel_dispose p s =
     (if p \<in> set (live s) then
        onDidDispose (emit (DisposePanel p) (s\<lparr>live := removeAll p (live s)\<rparr>))
      else s)"

definition deactivate :: "host_state \<Rightarrow> host_state" where
  "deactivate s = (case currentPanel s of Some p \<Rightarrow> panel_dispose p s | None \<Rightarrow> s)"

text \<open>The state after \<^verbatim>\<open>activate\<close>, with the configuration store the host has.\<close>

definition activate :: "(jsstring \<rightharpoonup> jsvalue) \<Rightarrow> host_state" where
  "activate cfg = \<lparr>currentPanel = None, live = [], nextPanel = 0, config = cfg, trace = []\<rparr>"

text \<open>
  What can happen to the activated extension: the command is invoked, the user closes a
  panel, the webview posts a message (answered by the outside world as \<open>env\<close> says), or
  the host deactivates the extension.
\<close>

datatype event =
    OpenChat
  | PanelClosed panel
  | WebviewMessage jsvalue env
  | Deactivate

fun step :: "event \<Rightarrow> host_state \<Rightarrow> host_state" where
  "step OpenChat s = openChat s"
| "step (PanelClosed p) s = panel_dispose p s"
| "step (WebviewMessage m e) s = onDidReceiveMessage e m s"
| "step Deactivate s = deactivate s"

fun run :: "event list \<Rightarrow> host_state \<Rightarrow> host_state" where
  "run [] s = s"
| "run (ev # evs) s = run evs (step ev s)"

section \<open>Vocabulary of the properties\<close>

text \<open>The lowercase letters and the digits.\<close>

definition key_alphabet :: "code_unit list" where
  "key_alphabet = str ''abcdefghijklmnopqrstuvwxyz0123456789''"

text \<open>The message \<^verbatim>\<open>{ command: 'validateApiKey', apiKey: key }\<close>.\<close>

definition validateApiKey_message :: "jsstring \<Rightarrow> jsvalue" where
  "validateApiKey_message key =
     JObj [(str ''command'', JStr (str ''validateApiKey'')), (str ''apiKey'', JStr key)]"

text \<open>The GET of the models endpoint with \<open>apiKey\<close> in the \<^verbatim>\<open>api-key\<close> header.\<close>

definition models_request :: "jsvalue \<Rightarrow> http_request" where
  "models_request apiKey =
     \<lparr>req_method = GET, req_url = models_url,
      req_headers = [(str ''api-key'', apiKey)], req_body = None\<rparr>"

text \<open>The POST of the chat endpoint with the body \<^verbatim>\<open>{ prompt }\<close>.\<close>

definition chat_request :: "jsvalue \<Rightarrow> jsvalue \<Rightarrow> http_request" where
  "chat_request apiKey prompt =
     \<lparr>req_method = POST, req_url = chat_url,
      req_headers = [(str ''api-key'', apiKey),
                     (str ''Content-Type'', JStr (str ''application/json''))],
      req_body = Some (JObj [(str ''prompt'', prompt)])\<rparr>"

text \<open>The messages \<^verbatim>\<open>apiKeyValidated\<close>, \<^verbatim>\<open>chatResponse\<close> and \<^verbatim>\<open>sendChat\<close>.\<close>

definition apiKeyValidated_message :: "jsvalue list \<Rightarrow> jsvalue" where
  "apiKeyValidated_message models =
     JObj [(str ''command'', JStr (str ''apiKeyValidated'')), (str ''models'', JArr models)]"

definition chatResponse_message :: "jsvalue \<Rightarrow> jsvalue" where
  "chatResponse_message content =
     JObj [(str ''command'', JStr (str ''chatResponse'')), (str ''content'', content)]"

definition sendChat_message :: "jsvalue \<Rightarrow> jsvalue" where
  "sendChat_message prompt =
     JObj [(str ''command'', JStr (str ''sendChat'')), (str ''prompt'', prompt)]"

text \<open>A value that has fields to read: anything but \<^verbatim>\<open>undefined\<close> and \<^verbatim>\<open>null\<close>.\<close>

definition has_fields :: "jsvalue \<Rightarrow> bool" where
  "has_fields v \<longleftrightarrow> v \<noteq> JUndefined \<and> v \<noteq> JNull"

text \<open>The value of the field \<open>k\<close> of \<open>v\<close>, \<^verbatim>\<open>undefined\<close> where \<open>v\<close> has no such field.\<close>

fun field :: "jsstring \<Rightarrow> jsvalue \<Rightarrow> jsvalue" where
  "field k (JObj kvs) = (case map_of kvs k of None \<Rightarrow> JUndefined | Some v \<Rightarrow> v)"
| "field k v = JUndefined"

text \<open>A response body of the models endpoint with two entries.\<close>

definition two_models :: jsvalue where
  "two_models =
     JArr [JObj [(str ''model'', JStr (str ''gpt-4o'')), (str ''pricing'', JNum 2)],
           JObj [(str ''description'', JNull), (str ''model'', JStr (str ''claude''))]]"

text \<open>A well-formed key, and the state with one open panel over a configuration \<open>cfg\<close>.\<close>

definition sample_key :: jsvalue where
  "sample_key = JStr (str ''0123456789abcdefghij0123456789'')"

definition panel_open :: "(jsstring \<rightharpoonup> jsvalue) \<Rightarrow> host_state" where
  "panel_open cfg = createWebviewPanel (activate cfg)"

text \<open>The effect posts a message with the command \<open>c\<close> to a webview.\<close>

fun posts_command :: "jsstring \<Rightarrow> effect \<Rightarrow> bool" where
  "posts_command c (PostMessage p m) = (get_prop m (str ''command'') = Inr (JStr c))"
| "posts_command c (CreatePanel p) = False"
| "posts_command c (RevealPanel p) = False"
| "posts_command c (DisposePanel p) = False"
| "posts_command c (HttpRequest r) = False"
| "posts_command c (ConfigUpdate k v) = False"

text \<open>The HTTP requests among some effects, in order.\<close>

fun requests_of :: "effect list \<Rightarrow> http_request list" where
  "requests_of [] = []"
| "requests_of (HttpRequest r # es) = r # requests_of es"
| "requests_of (CreatePanel p # es) = requests_of es"
| "requests_of (RevealPanel p # es) = requests_of es"
| "requests_of (DisposePanel p # es) = requests_of es"
| "requests_of (PostMessage p m # es) = requests_of es"
| "requests_of (ConfigUpdate k v # es) = requests_of es"

text \<open>The calls of the configuration's \<^verbatim>\<open>update\<close> among some effects, in order.\<close>

fun config_writes :: "effect list \<Rightarrow> (jsstring \<times> jsvalue) list" where
  "config_writes [] = []"
| "config_writes (ConfigUpdate k v # es) = (k, v) # config_writes es"
| "config_writes (CreatePanel p # es) = config_writes es"
| "config_writes (RevealPanel p # es) = config_writes es"
| "config_writes (DisposePanel p # es) = config_writes es"
| "config_writes (PostMessage p m # es) = config_writes es"
| "config_writes (HttpRequest r # es) = config_writes es"

text \<open>The two endpoints: \<^verbatim>\<open>GET /api/chat/models\<close> and \<^verbatim>\<open>POST /api/chat\<close>.\<close>

definition endpoint :: "http_request \<Rightarrow> bool" where
  "endpoint r \<longleftrightarrow>
     (req_method r = GET \<and> req_url r = str ''https://api.qbraid.com/api/chat/models'') \<or>
     (req_method r = POST \<and> req_url r = str ''https://api.qbraid.com/api/chat'')"

text \<open>The message is a \<^verbatim>\<open>validateApiKey\<close> message.\<close>

definition is_validateApiKey :: "jsvalue \<Rightarrow> bool" where
  "is_validateApiKey m \<longleftrightarrow> get_prop m (str ''command'') = Inr (JStr (str ''validateApiKey''))"

text \<open>The panel bookkeeping: the live panels are exactly the one in \<^verbatim>\<open>currentPanel\<close>.\<close>

definition panel_inv :: "host_state \<Rightarrow> bool" where
  "panel_inv s \<longleftrightarrow>
     live s = (case currentPanel s of None \<Rightarrow> [] | Some p \<Rightarrow> [p]) \<and>
     list_all (\<lambda>p. p < nextPanel s) (live s)"

text \<open>
  A session: open the panel, validate a key, send a prompt, invoke the command again,
  close the panel, open a new one, deactivate.
\<close>

definition sample_session :: "event list" where
  "sample_session =
     [OpenChat,
      WebviewMessage (validateApiKey_message (str ''0123456789abcdefghij0123456789''))
        \<lparr>http = Resolved \<lparr>status = 200, data = two_models\<rparr>, update_rejects = False\<rparr>,
      WebviewMessage (sendChat_message (JStr (str ''hello'')))
        \<lparr>http = Resolved \<lparr>status = 200, data = JObj [(str ''content'', JStr (str ''Hi!''))]\<rparr>,
         update_rejects = False\<rparr>,
      OpenChat,
      PanelClosed 0,
      OpenChat,
      Deactivate]"

text \<open>A configuration that holds one setting of another owner.\<close>

definition font_setting :: "jsstring \<rightharpoonup> jsvalue" where
  "font_setting = [str ''editor.fontSize'' \<mapsto> JNum 14]"

text \<open>The event is the user picking a model in the dropdown.\<close>

fun is_ModelSelected :: "webview_event \<Rightarrow> bool" where
  "is_ModelSelected (ModelSelected i) = True"
| "is_ModelSelected (ApiKeyInput v) = False"
| "is_ModelSelected (PromptTyped v) = False"
| "is_ModelSelected SendClicked = False"
| "is_ModelSelected (KeyPressed k) = False"
| "is_ModelSelected (HostMessage m) = False"

text \<open>The page with its dropdown (options and selection) forgotten.\<close>

definition without_dropdown :: "webview \<Rightarrow> webview" where
  "without_dropdown w = w\<lparr>modelSelect_options := [], modelSelect_selectedIndex := - 1\<rparr>"

text \<open>
  The user gets the model list, types a prompt, picks the second model and clicks Send.
\<close>

definition sample_page_events :: "webview_event list" where
  "sample_page_events =
     [HostMessage (apiKeyValidated_message [JStr (str ''gpt-4o''), JStr (str ''claude'')]),
      PromptTyped (str '' hello ''),
      ModelSelected 1,
      SendClicked]"

section \<open>Properties\<close>

lemma of_char_unat: "unat (of_nat (of_char c) :: code_unit) = of_char c"
proof -
  have "(of_char c :: nat) < 256"
    by (cases c) (simp add: of_char_def bit_eq_iff)
  then have "(of_char c :: nat) < 65536" by (rule less_trans) simp
  then show ?thesis by (simp add: unat_of_nat)
qed

lemma str_inj [simp]: "str a = str b \<longleftrightarrow> a = b"
proof -
  have "inj (\<lambda>c::char. (of_nat (of_char c) :: code_unit))"
  proof (rule injI)
    fix x y :: char
    assume "(of_nat (of_char x) :: code_unit) = of_nat (of_char y)"
    then have "unat (of_nat (of_char x) :: code_unit) = unat (of_nat (of_char y) :: code_unit)"
      by simp
    then have "(of_char x :: nat) = of_char y" by (simp only: of_char_unat)
    then show "x = y" by simp
  qed
  then show ?thesis by (simp add: str_def inj_map_eq_map)
qed

subsection \<open>The key gate of the webview\<close>

lemma lower_alnum_alphabet: "lower_alnum c \<longleftrightarrow> c \<in> set key_alphabet"
proof
  assume "c \<in> set key_alphabet"
  then show "lower_alnum c"
    unfolding key_alphabet_def str_def lower_alnum_def by (simp, elim disjE) simp_all
next
  assume a: "lower_alnum c"
  from a have "97 \<le> unat c \<and> unat c \<le> 122 \<or> 48 \<le> unat c \<and> unat c \<le> 57"
    unfolding lower_alnum_def by (simp add: word_le_nat_alt)
  then have "unat c = 97 \<or> unat c = 98 \<or> unat c = 99 \<or> unat c = 100 \<or> unat c = 101 \<or>
      unat c = 102 \<or> unat c = 103 \<or> unat c = 104 \<or> unat c = 105 \<or> unat c = 106 \<or>
      unat c = 107 \<or> unat c = 108 \<or> unat c = 109 \<or> unat c = 110 \<or> unat c = 111 \<or>
      unat c = 112 \<or> unat c = 113 \<or> unat c = 114 \<or> unat c = 115 \<or> unat c = 116 \<or>
      unat c = 117 \<or> unat c = 118 \<or> unat c = 119 \<or> unat c = 120 \<or> unat c = 121 \<or>
      unat c = 122 \<or> unat c = 48 \<or> unat c = 49 \<or> unat c = 50 \<or> unat c = 51 \<or>
      unat c = 52 \<or> unat c = 53 \<or> unat c = 54 \<or> unat c = 55 \<or> unat c = 56 \<or> unat c = 57"
    by arith
  then have "of_nat (unat c) \<in> set key_alphabet"
    unfolding key_alphabet_def str_def by (elim disjE) simp_all
  then show "c \<in> set key_alphabet" by simp
qed

lemma key_regex_test_alphabet:
  "length key = 30 \<and> key_regex_test key \<longleftrightarrow> length key = 30 \<and> set key \<subseteq> set key_alphabet"
  by (auto simp: key_regex_test_def list_all_iff lower_alnum_alphabet)

lemma trim_example:
  "trim (str '' 0123456789abcdefghij0123456789  '') = str ''0123456789abcdefghij0123456789''"
  by (simp add: trim_def str_def isWhiteSpace_def)

lemma trim_example_upper:
  "trim (str ''0123456789ABCDEFGHIJ0123456789'') = str ''0123456789ABCDEFGHIJ0123456789''"
  by (simp add: trim_def str_def isWhiteSpace_def)

text \<open>
  C2. The \<^verbatim>\<open>input\<close> listener of the key field posts the \<^verbatim>\<open>validateApiKey\<close> message, carrying
  the trimmed input, if and only if the trimmed input has exactly 30 code units and each
  of them is a lowercase letter \<^verbatim>\<open>a\<close>..\<^verbatim>\<open>z\<close> or a digit. For every other input nothing is
  posted and the status line shows the format error with the class \<^verbatim>\<open>error\<close>.
\<close>

theorem apiKey_format_gate:
  "(outbox (apiKey_input v w) = outbox w @ [validateApiKey_message (trim v)]
      \<longleftrightarrow> length (trim v) = 30 \<and> set (trim v) \<subseteq> set key_alphabet) \<and>
   (\<not> (length (trim v) = 30 \<and> set (trim v) \<subseteq> set key_alphabet) \<longrightarrow>
      outbox (apiKey_input v w) = outbox w \<and>
      apiKeyStatus_textContent (apiKey_input v w) = format_error_text \<and>
      apiKeyStatus_className (apiKey_input v w) = str ''error'')"
  using key_regex_test_alphabet [of "trim v"]
  by (simp add: apiKey_input_def Let_def vscode_postMessage_def validateApiKey_message_def)

theorem apiKey_format_gate_witness:
  "outbox (apiKey_input (str '' 0123456789abcdefghij0123456789  '') getWebviewContent) =
     [validateApiKey_message (str ''0123456789abcdefghij0123456789'')] \<and>
   outbox (apiKey_input (str ''0123456789ABCDEFGHIJ0123456789'') getWebviewContent) = [] \<and>
   apiKeyStatus_textContent
       (apiKey_input (str ''0123456789ABCDEFGHIJ0123456789'') getWebviewContent) =
     format_error_text"
proof -
  have a: "length (str ''0123456789abcdefghij0123456789'') = 30"
    by (simp add: str_def)
  have b: "set (str ''0123456789abcdefghij0123456789'') \<subseteq> set key_alphabet"
    by (simp add: str_def key_alphabet_def)
  have c: "\<not> set (str ''0123456789ABCDEFGHIJ0123456789'') \<subseteq> set key_alphabet"
    by (simp add: str_def key_alphabet_def)
  have d: "outbox getWebviewContent = []" by (simp add: getWebviewContent_def)
  show ?thesis
    using apiKey_format_gate [of "str '' 0123456789abcdefghij0123456789  ''" getWebviewContent]
      apiKey_format_gate [of "str ''0123456789ABCDEFGHIJ0123456789''" getWebviewContent]
    by (simp only: trim_example trim_example_upper a b c d) simp
qed

subsection \<open>The two handlers, branch by branch\<close>


lemma get_prop_field: "has_fields v \<Longrightarrow> get_prop v k = Inr (field k v)"
  by (cases v) (simp_all add: has_fields_def)

lemma get_prop_throws: "\<not> has_fields v \<Longrightarrow> get_prop v k = Inl TypeError"
  by (cases v) (simp_all add: has_fields_def)

lemma map_throwing_fields:
  "list_all has_fields xs \<Longrightarrow> map_throwing (\<lambda>x. get_prop x k) xs = Inr (map (field k) xs)"
  by (induction xs) (simp_all add: get_prop_field)

lemma map_throwing_throws:
  "\<not> list_all has_fields xs \<Longrightarrow> map_throwing (\<lambda>x. get_prop x k) xs = Inl TypeError"
proof (induction xs)
  case Nil
  then show ?case by simp
next
  case (Cons x xs)
  show ?case
  proof (cases "has_fields x")
    case True
    with Cons show ?thesis by (simp add: get_prop_field)
  next
    case False
    then show ?thesis by (simp add: get_prop_throws)
  qed
qed

lemma catch_post_TypeError:
  "catch_post p TypeError fb s = s\<lparr>trace := trace s @ [PostMessage p (error_message (JStr fb))]\<rparr>"
  by (simp add: catch_post_def webview_postMessage_def emit_def error_data_def or_else_def)

lemma catch_post_HostError:
  "catch_post p HostError fb s = s\<lparr>trace := trace s @ [PostMessage p (error_message (JStr fb))]\<rparr>"
  by (simp add: catch_post_def webview_postMessage_def emit_def error_data_def or_else_def)

lemma catch_post_Axios:
  "catch_post p (AxiosError ro) fb s =
     s\<lparr>trace := trace s @
        [PostMessage p (error_message
           (case ro of None \<Rightarrow> JStr fb
            | Some r \<Rightarrow> if truthy (data r) then data r else JStr fb))]\<rparr>"
  by (simp add: catch_post_def webview_postMessage_def emit_def error_data_def or_else_def
      split: option.splits)

lemma validation_rejected:
  "http e = Rejected ro \<Longrightarrow>
   handleApiKeyValidation e k (Some p) s =
     s\<lparr>trace := trace s @
        [HttpRequest (models_request k),
         PostMessage p (error_message
           (case ro of None \<Rightarrow> JStr (str ''Failed to validate API key'')
            | Some r \<Rightarrow> if truthy (data r) then data r
                        else JStr (str ''Failed to validate API key'')))]\<rparr>"
  by (simp add: handleApiKeyValidation_def Let_def catch_post_Axios emit_def models_request_def)

lemma validation_other_status:
  "http e = Resolved r \<Longrightarrow> status r \<noteq> 200 \<Longrightarrow>
   handleApiKeyValidation e k (Some p) s = s\<lparr>trace := trace s @ [HttpRequest (models_request k)]\<rparr>"
  by (simp add: handleApiKeyValidation_def Let_def emit_def models_request_def)

lemma validation_ok:
  "http e = Resolved r \<Longrightarrow> status r = 200 \<Longrightarrow> data r = JArr elems \<Longrightarrow>
   list_all has_fields elems \<Longrightarrow>
   handleApiKeyValidation e k (Some p) s =
     (if update_rejects e then
        s\<lparr>trace := trace s @
          [HttpRequest (models_request k),
           PostMessage p (apiKeyValidated_message (map (field (str ''model'')) elems)),
           ConfigUpdate apiKey_setting k,
           PostMessage p (error_message (JStr (str ''Failed to validate API key'')))]\<rparr>
      else
        s\<lparr>trace := trace s @
          [HttpRequest (models_request k),
           PostMessage p (apiKeyValidated_message (map (field (str ''model'')) elems)),
           ConfigUpdate apiKey_setting k],
          config := (if k = JUndefined then (config s)(apiKey_setting := None)
                     else (config s)(apiKey_setting \<mapsto> k))\<rparr>)"
  by (simp add: handleApiKeyValidation_def Let_def emit_def models_request_def
      map_throwing_fields catch_post_HostError webview_postMessage_def configuration_update_def
      apiKeyValidated_message_def)

lemma validation_throws:
  "http e = Resolved r \<Longrightarrow> status r = 200 \<Longrightarrow>
   (\<And>elems. data r = JArr elems \<Longrightarrow> \<not> list_all has_fields elems) \<Longrightarrow>
   handleApiKeyValidation e k (Some p) s =
     s\<lparr>trace := trace s @
        [HttpRequest (models_request k),
         PostMessage p (error_message (JStr (str ''Failed to validate API key'')))]\<rparr>"
proof -
  assume a: "http e = Resolved r" "status r = 200"
    and b: "\<And>elems. data r = JArr elems \<Longrightarrow> \<not> list_all has_fields elems"
  have "array_map (\<lambda>model. get_prop model (str ''model'')) (data r) = Inl TypeError"
  proof (cases "data r")
    case (JArr xs)
    with b show ?thesis by (simp add: map_throwing_throws)
  qed simp_all
  with a show ?thesis
    by (simp add: handleApiKeyValidation_def Let_def emit_def models_request_def
        catch_post_TypeError)
qed


lemma chat_no_key:
  "\<not> truthy (configuration_get apiKey_setting s) \<Longrightarrow>
   handleChatRequest e x (Some p) s =
     s\<lparr>trace := trace s @
        [PostMessage p
           (error_message (JStr (str ''API key not found. Please enter your API key.'')))]\<rparr>"
  by (simp add: handleChatRequest_def Let_def webview_postMessage_def emit_def)

lemma chat_rejected:
  "truthy (configuration_get apiKey_setting s) \<Longrightarrow> http e = Rejected ro \<Longrightarrow>
   handleChatRequest e x (Some p) s =
     s\<lparr>trace := trace s @
        [HttpRequest (chat_request (configuration_get apiKey_setting s) x),
         PostMessage p (error_message
           (case ro of None \<Rightarrow> JStr (str ''Failed to get chat response'')
            | Some r \<Rightarrow> if truthy (data r) then data r
                        else JStr (str ''Failed to get chat response'')))]\<rparr>"
  by (simp add: handleChatRequest_def Let_def catch_post_Axios emit_def chat_request_def)

lemma chat_other_status:
  "truthy (configuration_get apiKey_setting s) \<Longrightarrow> http e = Resolved r \<Longrightarrow>
   status r \<noteq> 200 \<Longrightarrow>
   handleChatRequest e x (Some p) s =
     s\<lparr>trace := trace s @
        [HttpRequest (chat_request (configuration_get apiKey_setting s) x)]\<rparr>"
  by (simp add: handleChatRequest_def Let_def emit_def chat_request_def)

lemma chat_ok:
  "truthy (configuration_get apiKey_setting s) \<Longrightarrow> http e = Resolved r \<Longrightarrow>
   status r = 200 \<Longrightarrow> has_fields (data r) \<Longrightarrow>
   handleChatRequest e x (Some p) s =
     s\<lparr>trace := trace s @
        [HttpRequest (chat_request (configuration_get apiKey_setting s) x),
         PostMessage p (chatResponse_message (field (str ''content'') (data r)))]\<rparr>"
  by (simp add: handleChatRequest_def Let_def emit_def chat_request_def get_prop_field
      webview_postMessage_def chatResponse_message_def)

lemma chat_throws:
  "truthy (configuration_get apiKey_setting s) \<Longrightarrow> http e = Resolved r \<Longrightarrow>
   status r = 200 \<Longrightarrow> \<not> has_fields (data r) \<Longrightarrow>
   handleChatRequest e x (Some p) s =
     s\<lparr>trace := trace s @
        [HttpRequest (chat_request (configuration_get apiKey_setting s) x),
         PostMessage p (error_message (JStr (str ''Failed to get chat response'')))]\<rparr>"
  by (simp add: handleChatRequest_def Let_def emit_def chat_request_def get_prop_throws
      catch_post_TypeError)

lemma get_prop_Inr: "get_prop v k = Inr x \<Longrightarrow> has_fields v \<and> field k v = x"
  by (cases v) (auto simp: has_fields_def)

lemma dispatch_sendChat:
  "currentPanel s = Some p \<Longrightarrow> get_prop m (str ''command'') = Inr (JStr (str ''sendChat'')) \<Longrightarrow>
   onDidReceiveMessage e m s = handleChatRequest e (field (str ''prompt'') m) (Some p) s"
  by (frule get_prop_Inr) (simp add: onDidReceiveMessage_def get_prop_field)

lemma dispatch_validateApiKey:
  "currentPanel s = Some p \<Longrightarrow>
   get_prop m (str ''command'') = Inr (JStr (str ''validateApiKey'')) \<Longrightarrow>
   onDidReceiveMessage e m s = handleApiKeyValidation e (field (str ''apiKey'') m) (Some p) s"
  by (frule get_prop_Inr) (simp add: onDidReceiveMessage_def get_prop_field)

text \<open>
  C3. On a status-200 response of the models endpoint whose body is an array, the only
  \<^verbatim>\<open>apiKeyValidated\<close> message posted carries exactly the \<^verbatim>\<open>model\<close> field of each element, in
  the order of the response. It is posted when every element has fields to read; an
  element that is \<^verbatim>\<open>null\<close> or \<^verbatim>\<open>undefined\<close> makes the read throw, and then no
  \<^verbatim>\<open>apiKeyValidated\<close> message is posted at all.
\<close>

theorem model_discovery:
  "http e = Resolved r \<Longrightarrow> status r = 200 \<Longrightarrow> data r = JArr elems \<Longrightarrow>
   trace (handleApiKeyValidation e k (Some p) s) =
     trace s @
     (if list_all has_fields elems then
        [HttpRequest (models_request k),
         PostMessage p (apiKeyValidated_message (map (field (str ''model'')) elems)),
         ConfigUpdate apiKey_setting k] @
        (if update_rejects e
         then [PostMessage p (error_message (JStr (str ''Failed to validate API key'')))]
         else [])
      else
        [HttpRequest (models_request k),
         PostMessage p (error_message (JStr (str ''Failed to validate API key'')))])"
proof (cases "list_all has_fields elems")
  case True
  assume "http e = Resolved r" "status r = 200" "data r = JArr elems"
  from validation_ok [OF this True, of k p s] True show ?thesis by simp
next
  case False
  assume a: "http e = Resolved r" "status r = 200" "data r = JArr elems"
  then have "\<And>xs. data r = JArr xs \<Longrightarrow> \<not> list_all has_fields xs"
    using False by simp
  from validation_throws [OF a(1,2) this, of k p s] False show ?thesis by simp
qed

theorem model_discovery_witness:
  "trace (handleApiKeyValidation
            \<lparr>http = Resolved \<lparr>status = 200, data = two_models\<rparr>, update_rejects = False\<rparr>
            (JStr (str ''0123456789abcdefghij0123456789'')) (Some 0)
            (createWebviewPanel (activate Map.empty))) =
     [CreatePanel 0,
      HttpRequest (models_request (JStr (str ''0123456789abcdefghij0123456789''))),
      PostMessage 0 (apiKeyValidated_message [JStr (str ''gpt-4o''), JStr (str ''claude'')]),
      ConfigUpdate apiKey_setting (JStr (str ''0123456789abcdefghij0123456789''))]"
  using model_discovery [of
      "\<lparr>http = Resolved \<lparr>status = 200, data = two_models\<rparr>, update_rejects = False\<rparr>"
      "\<lparr>status = 200, data = two_models\<rparr>"
      "[JObj [(str ''model'', JStr (str ''gpt-4o'')), (str ''pricing'', JNum 2)],
        JObj [(str ''description'', JNull), (str ''model'', JStr (str ''claude''))]]"
      "JStr (str ''0123456789abcdefghij0123456789'')" 0
      "createWebviewPanel (activate Map.empty)"]
  by (simp add: two_models_def has_fields_def createWebviewPanel_def activate_def emit_def)

subsection \<open>Forwarding a prompt\<close>

lemma str_Nil [simp]: "str a = [] \<longleftrightarrow> a = []"
  by (simp add: str_def)

lemma panel_open_simps:
  "currentPanel (panel_open cfg) = Some 0"
  "trace (panel_open cfg) = [CreatePanel 0]"
  "config (panel_open cfg) = cfg"
  "live (panel_open cfg) = [0]"
  "nextPanel (panel_open cfg) = 1"
  by (simp_all add: panel_open_def createWebviewPanel_def activate_def emit_def)

lemma sendChat_command:
  "get_prop (sendChat_message x) (str ''command'') = Inr (JStr (str ''sendChat''))"
  "field (str ''prompt'') (sendChat_message x) = x"
  by (simp_all add: sendChat_message_def)

lemma configuration_get_simps:
  "configuration_get k (panel_open cfg) = (case cfg k of None \<Rightarrow> JUndefined | Some v \<Rightarrow> v)"
  by (simp add: configuration_get_def panel_open_simps)

text \<open>
  C4, as the code has it. For every \<^verbatim>\<open>sendChat\<close> message handled while the panel is open
  and the stored key is truthy (for a string: not empty), the host issues exactly one HTTP
  request, the POST to the chat endpoint whose body is \<^verbatim>\<open>{ prompt }\<close> and whose \<^verbatim>\<open>api-key\<close>
  header is the stored key. On a status-200 response whose body has fields to read (is not
  \<^verbatim>\<open>null\<close> or \<^verbatim>\<open>undefined\<close>) it then posts exactly one message, the \<^verbatim>\<open>chatResponse\<close> carrying
  the body's \<^verbatim>\<open>content\<close> field, and changes nothing else.
\<close>

theorem prompt_forwarding:
  "currentPanel s = Some p \<Longrightarrow>
   get_prop m (str ''command'') = Inr (JStr (str ''sendChat'')) \<Longrightarrow>
   truthy (configuration_get apiKey_setting s) \<Longrightarrow>
   (\<exists>rest. trace (onDidReceiveMessage e m s) =
        trace s @
        HttpRequest (chat_request (configuration_get apiKey_setting s) (field (str ''prompt'') m))
          # rest \<and>
        (\<forall>q. HttpRequest q \<notin> set rest)) \<and>
   (\<forall>r. http e = Resolved r \<and> status r = 200 \<and> has_fields (data r) \<longrightarrow>
      onDidReceiveMessage e m s =
        s\<lparr>trace := trace s @
          [HttpRequest
             (chat_request (configuration_get apiKey_setting s) (field (str ''prompt'') m)),
           PostMessage p (chatResponse_message (field (str ''content'') (data r)))]\<rparr>)"
proof -
  assume a: "currentPanel s = Some p"
    "get_prop m (str ''command'') = Inr (JStr (str ''sendChat''))"
    and k: "truthy (configuration_get apiKey_setting s)"
  note d = dispatch_sendChat [OF a]
  show ?thesis
  proof (cases "http e")
    case (Rejected ro)
    from chat_rejected [OF k this] Rejected show ?thesis by (simp add: d)
  next
    case (Resolved r)
    show ?thesis
    proof (cases "status r = 200")
      case False
      from chat_other_status [OF k Resolved False] Resolved False show ?thesis
        by (simp add: d)
    next
      case True
      show ?thesis
      proof (cases "has_fields (data r)")
        case True
        from chat_ok [OF k Resolved \<open>status r = 200\<close> True] Resolved show ?thesis
          by (simp add: d)
      next
        case False
        from chat_throws [OF k Resolved \<open>status r = 200\<close> False] Resolved False show ?thesis
          by (simp add: d)
      qed
    qed
  qed
qed

theorem prompt_forwarding_witness:
  "onDidReceiveMessage
     \<lparr>http = Resolved \<lparr>status = 200,
         data = JObj [(str ''content'', JStr (str ''Hi!'')), (str ''usage'', JNum 7)]\<rparr>,
      update_rejects = False\<rparr>
     (sendChat_message (JStr (str ''hello'')))
     (panel_open [apiKey_setting \<mapsto> sample_key]) =
   (panel_open [apiKey_setting \<mapsto> sample_key])
     \<lparr>trace := [CreatePanel 0,
        HttpRequest \<lparr>req_method = POST, req_url = chat_url,
          req_headers = [(str ''api-key'', sample_key),
                         (str ''Content-Type'', JStr (str ''application/json''))],
          req_body = Some (JObj [(str ''prompt'', JStr (str ''hello''))])\<rparr>,
        PostMessage 0 (chatResponse_message (JStr (str ''Hi!'')))]\<rparr>"
  using prompt_forwarding [of "panel_open [apiKey_setting \<mapsto> sample_key]" 0
      "sendChat_message (JStr (str ''hello''))"
      "\<lparr>http = Resolved \<lparr>status = 200,
         data = JObj [(str ''content'', JStr (str ''Hi!'')), (str ''usage'', JNum 7)]\<rparr>,
        update_rejects = False\<rparr>"]
  by (simp add: panel_open_simps sendChat_command configuration_get_simps sample_key_def
      has_fields_def chat_request_def)

text \<open>
  C4 as stated fails on a status-200 response whose body is \<^verbatim>\<open>null\<close>: reading
  \<^verbatim>\<open>response.data.content\<close> throws, the \<^verbatim>\<open>catch\<close> clause posts an \<^verbatim>\<open>error\<close> message, and no
  \<^verbatim>\<open>chatResponse\<close> message is posted.
\<close>

theorem prompt_forwarding_null_body:
  "trace (onDidReceiveMessage
     \<lparr>http = Resolved \<lparr>status = 200, data = JNull\<rparr>, update_rejects = False\<rparr>
     (sendChat_message (JStr (str ''hello'')))
     (panel_open [apiKey_setting \<mapsto> sample_key])) =
   [CreatePanel 0,
    HttpRequest (chat_request sample_key (JStr (str ''hello''))),
    PostMessage 0 (error_message (JStr (str ''Failed to get chat response'')))] \<and>
   \<not> list_ex (posts_command (str ''chatResponse''))
     (trace (onDidReceiveMessage
       \<lparr>http = Resolved \<lparr>status = 200, data = JNull\<rparr>, update_rejects = False\<rparr>
       (sendChat_message (JStr (str ''hello'')))
       (panel_open [apiKey_setting \<mapsto> sample_key])))"
  by (simp add: dispatch_sendChat [of _ 0] panel_open_simps sendChat_command chat_throws
      configuration_get_simps sample_key_def has_fields_def error_message_def)

text \<open>
  C7. When a \<^verbatim>\<open>sendChat\<close> message is handled while the setting \<^verbatim>\<open>qbraidChat.apiKey\<close> is
  absent or the empty string, the host posts the one \<^verbatim>\<open>error\<close> message
  \<^verbatim>\<open>API key not found. Please enter your API key.\<close> and does nothing else: no HTTP request
  is issued.
\<close>

theorem chat_key_gate:
  "currentPanel s = Some p \<Longrightarrow>
   get_prop m (str ''command'') = Inr (JStr (str ''sendChat'')) \<Longrightarrow>
   config s apiKey_setting = None \<or> config s apiKey_setting = Some (JStr []) \<Longrightarrow>
   onDidReceiveMessage e m s =
     s\<lparr>trace := trace s @
        [PostMessage p
           (error_message (JStr (str ''API key not found. Please enter your API key.'')))]\<rparr>"
proof -
  assume a: "currentPanel s = Some p"
    "get_prop m (str ''command'') = Inr (JStr (str ''sendChat''))"
    and "config s apiKey_setting = None \<or> config s apiKey_setting = Some (JStr [])"
  then have "\<not> truthy (configuration_get apiKey_setting s)"
    by (auto simp: configuration_get_def)
  from chat_no_key [OF this] show ?thesis by (simp add: dispatch_sendChat [OF a])
qed

theorem chat_key_gate_witness:
  "onDidReceiveMessage
     \<lparr>http = Resolved \<lparr>status = 200, data = JObj [(str ''content'', JStr (str ''Hi!''))]\<rparr>,
      update_rejects = False\<rparr>
     (sendChat_message (JStr (str ''hello''))) (panel_open Map.empty) =
   (panel_open Map.empty)
     \<lparr>trace := [CreatePanel 0,
        PostMessage 0
          (error_message (JStr (str ''API key not found. Please enter your API key.'')))]\<rparr> \<and>
   trace (onDidReceiveMessage
     \<lparr>http = Resolved \<lparr>status = 200, data = JObj [(str ''content'', JStr (str ''Hi!''))]\<rparr>,
      update_rejects = False\<rparr>
     (sendChat_message (JStr (str ''hello''))) (panel_open [apiKey_setting \<mapsto> JStr []])) =
   [CreatePanel 0,
    PostMessage 0
      (error_message (JStr (str ''API key not found. Please enter your API key.'')))]"
  using chat_key_gate [of "panel_open Map.empty" 0 "sendChat_message (JStr (str ''hello''))"
      "\<lparr>http = Resolved \<lparr>status = 200, data = JObj [(str ''content'', JStr (str ''Hi!''))]\<rparr>,
        update_rejects = False\<rparr>"]
    chat_key_gate [of "panel_open [apiKey_setting \<mapsto> JStr []]" 0
      "sendChat_message (JStr (str ''hello''))"
      "\<lparr>http = Resolved \<lparr>status = 200, data = JObj [(str ''content'', JStr (str ''Hi!''))]\<rparr>,
        update_rejects = False\<rparr>"]
  by (simp add: panel_open_simps sendChat_command)

subsection \<open>A failed validation\<close>

text \<open>
  C8, as the code has it. When the GET to the models endpoint rejects, the handler issues
  the request, posts exactly one \<^verbatim>\<open>error\<close> message and changes nothing else, so the stored
  key is as before. The message is \<^verbatim>\<open>error.response?.data || 'Failed to validate API key'\<close>:
  the body of the error response when there is a response and its body is truthy, the
  fixed text otherwise (no response, or a body that is \<^verbatim>\<open>''\<close>, \<^verbatim>\<open>0\<close>, \<^verbatim>\<open>false\<close>, \<^verbatim>\<open>null\<close> or
  \<^verbatim>\<open>undefined\<close>). The configuration changes only after a status-200 response.
\<close>

theorem validation_failure:
  "(http e = Rejected ro \<longrightarrow>
      handleApiKeyValidation e k (Some p) s =
        s\<lparr>trace := trace s @
          [HttpRequest (models_request k),
           PostMessage p (error_message
             (case ro of
                None \<Rightarrow> JStr (str ''Failed to validate API key'')
              | Some r \<Rightarrow> if truthy (data r) then data r
                          else JStr (str ''Failed to validate API key'')))]\<rparr>) \<and>
   (config (handleApiKeyValidation e k panel s) \<noteq> config s \<longrightarrow>
      (\<exists>r. http e = Resolved r \<and> status r = 200))"
proof (intro conjI impI)
  assume "http e = Rejected ro"
  then show "handleApiKeyValidation e k (Some p) s =
        s\<lparr>trace := trace s @
          [HttpRequest (models_request k),
           PostMessage p (error_message
             (case ro of
                None \<Rightarrow> JStr (str ''Failed to validate API key'')
              | Some r \<Rightarrow> if truthy (data r) then data r
                          else JStr (str ''Failed to validate API key'')))]\<rparr>"
    by (rule validation_rejected)
next
  assume c: "config (handleApiKeyValidation e k panel s) \<noteq> config s"
  show "\<exists>r. http e = Resolved r \<and> status r = 200"
  proof (cases panel)
    case None
    with c show ?thesis by (simp add: handleApiKeyValidation_def)
  next
    case (Some q)
    show ?thesis
    proof (cases "http e")
      case (Rejected ro')
      from validation_rejected [OF this, of k q s] c Some show ?thesis by simp
    next
      case (Resolved r)
      show ?thesis
      proof (cases "status r = 200")
        case True
        with Resolved show ?thesis by simp
      next
        case False
        from validation_other_status [OF Resolved False, of k q s] c Some show ?thesis by simp
      qed
    qed
  qed
qed

theorem validation_failure_witness:
  "handleApiKeyValidation
     \<lparr>http = Rejected (Some \<lparr>status = 401, data = JStr (str ''Invalid API key'')\<rparr>),
      update_rejects = False\<rparr> sample_key (Some 0) (panel_open Map.empty) =
   (panel_open Map.empty)
     \<lparr>trace := [CreatePanel 0, HttpRequest (models_request sample_key),
        PostMessage 0 (error_message (JStr (str ''Invalid API key'')))]\<rparr> \<and>
   handleApiKeyValidation \<lparr>http = Rejected None, update_rejects = False\<rparr>
     sample_key (Some 0) (panel_open Map.empty) =
   (panel_open Map.empty)
     \<lparr>trace := [CreatePanel 0, HttpRequest (models_request sample_key),
        PostMessage 0 (error_message (JStr (str ''Failed to validate API key'')))]\<rparr> \<and>
   config (handleApiKeyValidation
     \<lparr>http = Resolved \<lparr>status = 200, data = two_models\<rparr>, update_rejects = False\<rparr>
     sample_key (Some 0) (panel_open Map.empty)) apiKey_setting = Some sample_key"
proof -
  have "config (handleApiKeyValidation
     \<lparr>http = Resolved \<lparr>status = 200, data = two_models\<rparr>, update_rejects = False\<rparr>
     sample_key (Some 0) (panel_open Map.empty)) apiKey_setting = Some sample_key"
    by (simp add: validation_ok [where elems = "[JObj [(str ''model'', JStr (str ''gpt-4o'')), (str ''pricing'', JNum 2)],
           JObj [(str ''description'', JNull), (str ''model'', JStr (str ''claude''))]]"]
        two_models_def has_fields_def sample_key_def)
  then show ?thesis
    using validation_failure [of
        "\<lparr>http = Rejected (Some \<lparr>status = 401, data = JStr (str ''Invalid API key'')\<rparr>),
          update_rejects = False\<rparr>"
        "Some \<lparr>status = 401, data = JStr (str ''Invalid API key'')\<rparr>"
        sample_key 0 "panel_open Map.empty" "Some 0"]
      validation_failure [of "\<lparr>http = Rejected None, update_rejects = False\<rparr>" None
        sample_key 0 "panel_open Map.empty" "Some 0"]
    by (simp add: panel_open_simps)
qed

text \<open>
  C8 as stated fails on an error response whose body is present and falsy: for the body
  \<^verbatim>\<open>false\<close> the message posted is the fixed text, not the body.
\<close>

theorem validation_failure_falsy_body:
  "trace (handleApiKeyValidation
     \<lparr>http = Rejected (Some \<lparr>status = 401, data = JBool False\<rparr>), update_rejects = False\<rparr>
     sample_key (Some 0) (panel_open Map.empty)) =
   [CreatePanel 0, HttpRequest (models_request sample_key),
    PostMessage 0 (error_message (JStr (str ''Failed to validate API key'')))] \<and>
   trace (handleApiKeyValidation
     \<lparr>http = Rejected (Some \<lparr>status = 401, data = JBool False\<rparr>), update_rejects = False\<rparr>
     sample_key (Some 0) (panel_open Map.empty)) \<noteq>
   [CreatePanel 0, HttpRequest (models_request sample_key),
    PostMessage 0 (error_message (JBool False))]"
  by (simp add: validation_rejected panel_open_simps error_message_def)

subsection \<open>Runs of the extension\<close>

lemma requests_of_append [simp]: "requests_of (xs @ ys) = requests_of xs @ requests_of ys"
  by (induction xs rule: requests_of.induct) simp_all

lemma config_writes_append [simp]: "config_writes (xs @ ys) = config_writes xs @ config_writes ys"
  by (induction xs rule: config_writes.induct) simp_all

text \<open>What one run of a handler adds to the trace and does to the configuration.\<close>

lemma validation_step:
  "\<exists>new. trace (handleApiKeyValidation e k panel s) = trace s @ new \<and>
     list_all endpoint (requests_of new) \<and>
     (\<forall>w \<in> set (config_writes new). fst w = apiKey_setting) \<and>
     (\<forall>j. j \<noteq> apiKey_setting \<longrightarrow> config (handleApiKeyValidation e k panel s) j = config s j) \<and>
     currentPanel (handleApiKeyValidation e k panel s) = currentPanel s \<and>
     live (handleApiKeyValidation e k panel s) = live s \<and>
     nextPanel (handleApiKeyValidation e k panel s) = nextPanel s"
proof (cases panel)
  case None
  then show ?thesis by (simp add: handleApiKeyValidation_def)
next
  case (Some p)
  have m: "endpoint (models_request k)"
    by (simp add: endpoint_def models_request_def models_url_def)
  show ?thesis
  proof (cases "http e")
    case (Rejected ro)
    from validation_rejected [OF this, of k p s] m Some show ?thesis by simp
  next
    case (Resolved r)
    show ?thesis
    proof (cases "status r = 200")
      case False
      from validation_other_status [OF Resolved False, of k p s] m Some show ?thesis by simp
    next
      case True
      show ?thesis
      proof (cases "\<exists>elems. data r = JArr elems \<and> list_all has_fields elems")
        case True
        then obtain elems where "data r = JArr elems" "list_all has_fields elems" by blast
        from validation_ok [OF Resolved \<open>status r = 200\<close> this, of k p s] m Some
        show ?thesis by (cases "update_rejects e") simp_all
      next
        case False
        then have "\<And>elems. data r = JArr elems \<Longrightarrow> \<not> list_all has_fields elems" by blast
        from validation_throws [OF Resolved \<open>status r = 200\<close> this, of k p s] m Some
        show ?thesis by simp
      qed
    qed
  qed
qed

lemma chat_step:
  "\<exists>new. trace (handleChatRequest e x panel s) = trace s @ new \<and>
     list_all endpoint (requests_of new) \<and> config_writes new = [] \<and>
     config (handleChatRequest e x panel s) = config s \<and>
     currentPanel (handleChatRequest e x panel s) = currentPanel s \<and>
     live (handleChatRequest e x panel s) = live s \<and>
     nextPanel (handleChatRequest e x panel s) = nextPanel s"
proof (cases panel)
  case None
  then show ?thesis by (simp add: handleChatRequest_def)
next
  case (Some p)
  have m: "endpoint (chat_request (configuration_get apiKey_setting s) x)"
    by (simp add: endpoint_def chat_request_def chat_url_def)
  show ?thesis
  proof (cases "truthy (configuration_get apiKey_setting s)")
    case False
    from chat_no_key [OF this, of e x p] Some show ?thesis by simp
  next
    case k: True
    show ?thesis
    proof (cases "http e")
      case (Rejected ro)
      from chat_rejected [OF k this, of x p] m Some show ?thesis by simp
    next
      case (Resolved r)
      show ?thesis
      proof (cases "status r = 200")
        case False
        from chat_other_status [OF k Resolved False, of x p] m Some show ?thesis by simp
      next
        case True
        show ?thesis
        proof (cases "has_fields (data r)")
          case True
          from chat_ok [OF k Resolved \<open>status r = 200\<close> True, of x p] m Some
          show ?thesis by simp
        next
          case False
          from chat_throws [OF k Resolved \<open>status r = 200\<close> False, of x p] m Some
          show ?thesis by simp
        qed
      qed
    qed
  qed
qed

lemma dispatch_cases:
  "onDidReceiveMessage e m s = s \<or>
   (\<exists>x. onDidReceiveMessage e m s = handleChatRequest e x (currentPanel s) s) \<or>
   (\<exists>k. is_validateApiKey m \<and>
      onDidReceiveMessage e m s = handleApiKeyValidation e k (currentPanel s) s)"
  by (auto simp: onDidReceiveMessage_def is_validateApiKey_def split: sum.splits)

lemma message_step:
  "\<exists>new. trace (onDidReceiveMessage e m s) = trace s @ new \<and>
     list_all endpoint (requests_of new) \<and>
     (\<forall>w \<in> set (config_writes new). fst w = apiKey_setting) \<and>
     (\<forall>j. j \<noteq> apiKey_setting \<longrightarrow> config (onDidReceiveMessage e m s) j = config s j) \<and>
     (\<not> is_validateApiKey m \<longrightarrow>
        config (onDidReceiveMessage e m s) = config s \<and> config_writes new = []) \<and>
     currentPanel (onDidReceiveMessage e m s) = currentPanel s \<and>
     live (onDidReceiveMessage e m s) = live s \<and>
     nextPanel (onDidReceiveMessage e m s) = nextPanel s"
proof -
  consider (same) "onDidReceiveMessage e m s = s"
    | (chat) x where "onDidReceiveMessage e m s = handleChatRequest e x (currentPanel s) s"
    | (key) k where "is_validateApiKey m"
        "onDidReceiveMessage e m s = handleApiKeyValidation e k (currentPanel s) s"
    using dispatch_cases [of e m s] by blast
  then show ?thesis
  proof cases
    case same
    then show ?thesis by simp
  next
    case chat
    from chat_step [of e x "currentPanel s" s] obtain new where
      "trace (handleChatRequest e x (currentPanel s) s) = trace s @ new"
      "list_all endpoint (requests_of new)" "config_writes new = []"
      "config (handleChatRequest e x (currentPanel s) s) = config s"
      "currentPanel (handleChatRequest e x (currentPanel s) s) = currentPanel s"
      "live (handleChatRequest e x (currentPanel s) s) = live s"
      "nextPanel (handleChatRequest e x (currentPanel s) s) = nextPanel s"
      by blast
    then show ?thesis unfolding chat by (intro exI [of _ new]) simp
  next
    case key
    from validation_step [of e k "currentPanel s" s] obtain new where
      "trace (handleApiKeyValidation e k (currentPanel s) s) = trace s @ new"
      "list_all endpoint (requests_of new)"
      "\<forall>w \<in> set (config_writes new). fst w = apiKey_setting"
      "\<forall>j. j \<noteq> apiKey_setting \<longrightarrow>
         config (handleApiKeyValidation e k (currentPanel s) s) j = config s j"
      "currentPanel (handleApiKeyValidation e k (currentPanel s) s) = currentPanel s"
      "live (handleApiKeyValidation e k (currentPanel s) s) = live s"
      "nextPanel (handleApiKeyValidation e k (currentPanel s) s) = nextPanel s"
      by blast
    then show ?thesis unfolding key(2) using key(1) by (intro exI [of _ new]) simp
  qed
qed

lemma openChat_step:
  "currentPanel s = Some p \<Longrightarrow> openChat s = s\<lparr>trace := trace s @ [RevealPanel p]\<rparr>"
  "currentPanel s = None \<Longrightarrow>
   openChat s = s\<lparr>currentPanel := Some (nextPanel s), live := live s @ [nextPanel s],
                  nextPanel := Suc (nextPanel s), trace := trace s @ [CreatePanel (nextPanel s)]\<rparr>"
  by (simp_all add: openChat_def createWebviewPanel_def emit_def Let_def)

lemma panel_dispose_step:
  "p \<in> set (live s) \<Longrightarrow>
   panel_dispose p s = s\<lparr>currentPanel := None, live := removeAll p (live s),
                          trace := trace s @ [DisposePanel p]\<rparr>"
  "p \<notin> set (live s) \<Longrightarrow> panel_dispose p s = s"
  by (simp_all add: panel_dispose_def onDidDispose_def emit_def)

lemma deactivate_step:
  "panel_inv s \<Longrightarrow> currentPanel s = Some p \<Longrightarrow>
   deactivate s = s\<lparr>currentPanel := None, live := [], trace := trace s @ [DisposePanel p]\<rparr>"
  "currentPanel s = None \<Longrightarrow> deactivate s = s"
  by (simp_all add: deactivate_def panel_dispose_step panel_inv_def)

lemma step_effects:
  "\<exists>new. trace (step ev s) = trace s @ new \<and>
     list_all endpoint (requests_of new) \<and>
     (\<forall>w \<in> set (config_writes new). fst w = apiKey_setting) \<and>
     (\<forall>j. j \<noteq> apiKey_setting \<longrightarrow> config (step ev s) j = config s j) \<and>
     ((\<forall>m e. ev = WebviewMessage m e \<longrightarrow> \<not> is_validateApiKey m) \<longrightarrow>
        config (step ev s) = config s \<and> config_writes new = [])"
proof (cases ev)
  case OpenChat
  then show ?thesis by (cases "currentPanel s") (auto simp: openChat_step)
next
  case (PanelClosed p)
  then show ?thesis by (cases "p \<in> set (live s)") (simp_all add: panel_dispose_step)
next
  case (WebviewMessage m e)
  from message_step [of e m s] obtain new where
    "trace (onDidReceiveMessage e m s) = trace s @ new"
    "list_all endpoint (requests_of new)"
    "\<forall>w \<in> set (config_writes new). fst w = apiKey_setting"
    "\<forall>j. j \<noteq> apiKey_setting \<longrightarrow> config (onDidReceiveMessage e m s) j = config s j"
    "\<not> is_validateApiKey m \<longrightarrow>
       config (onDidReceiveMessage e m s) = config s \<and> config_writes new = []"
    by blast
  then show ?thesis unfolding WebviewMessage by (intro exI [of _ new]) simp
next
  case Deactivate
  then show ?thesis
    by (cases "currentPanel s"; cases "the (currentPanel s) \<in> set (live s)")
      (auto simp: deactivate_def panel_dispose_step)
qed

lemma step_panel_inv: "panel_inv s \<Longrightarrow> panel_inv (step ev s)"
proof (cases ev)
  case OpenChat
  assume "panel_inv s"
  then show ?thesis unfolding OpenChat
    by (cases "currentPanel s") (auto simp: openChat_step panel_inv_def list_all_iff)
next
  case (PanelClosed p)
  assume "panel_inv s"
  then show ?thesis unfolding PanelClosed
    by (cases "p \<in> set (live s)")
      (auto simp: panel_dispose_step panel_inv_def list_all_iff split: option.splits)
next
  case (WebviewMessage m e)
  assume "panel_inv s"
  with message_step [of e m s] show ?thesis unfolding WebviewMessage
    by (auto simp: panel_inv_def)
next
  case Deactivate
  assume "panel_inv s"
  then show ?thesis unfolding Deactivate
    by (cases "currentPanel s") (auto simp: deactivate_step panel_inv_def)
qed

lemma run_panel_inv: "panel_inv s \<Longrightarrow> panel_inv (run evs s)"
  by (induction evs arbitrary: s) (simp_all add: step_panel_inv)

lemma activate_panel_inv: "panel_inv (activate cfg)"
  by (simp add: panel_inv_def activate_def)

lemma run_effects:
  "\<exists>new. trace (run evs s) = trace s @ new \<and>
     list_all endpoint (requests_of new) \<and>
     (\<forall>w \<in> set (config_writes new). fst w = apiKey_setting) \<and>
     (\<forall>j. j \<noteq> apiKey_setting \<longrightarrow> config (run evs s) j = config s j)"
proof (induction evs arbitrary: s)
  case Nil
  then show ?case by simp
next
  case (Cons ev evs)
  from step_effects [of ev s] obtain n1 where
    a: "trace (step ev s) = trace s @ n1" "list_all endpoint (requests_of n1)"
      "\<forall>w \<in> set (config_writes n1). fst w = apiKey_setting"
      "\<forall>j. j \<noteq> apiKey_setting \<longrightarrow> config (step ev s) j = config s j"
    by blast
  from Cons.IH [of "step ev s"] obtain n2 where
    b: "trace (run evs (step ev s)) = trace (step ev s) @ n2" "list_all endpoint (requests_of n2)"
      "\<forall>w \<in> set (config_writes n2). fst w = apiKey_setting"
      "\<forall>j. j \<noteq> apiKey_setting \<longrightarrow> config (run evs (step ev s)) j = config (step ev s) j"
    by blast
  from a b have "trace (run (ev # evs) s) = trace s @ (n1 @ n2) \<and>
     list_all endpoint (requests_of (n1 @ n2)) \<and>
     (\<forall>w \<in> set (config_writes (n1 @ n2)). fst w = apiKey_setting) \<and>
     (\<forall>j. j \<noteq> apiKey_setting \<longrightarrow> config (run (ev # evs) s) j = config s j)"
    by auto
  then show ?case by blast
qed

lemma validateApiKey_command:
  "get_prop (validateApiKey_message k) (str ''command'') = Inr (JStr (str ''validateApiKey''))"
  "field (str ''apiKey'') (validateApiKey_message k) = JStr k"
  by (simp_all add: validateApiKey_message_def)

lemma sample_session_run:
  "run sample_session (activate cfg) =
     \<lparr>currentPanel = None, live = [], nextPanel = 2,
      config = cfg(apiKey_setting \<mapsto> sample_key),
      trace = [CreatePanel 0,
        HttpRequest (models_request sample_key),
        PostMessage 0 (apiKeyValidated_message [JStr (str ''gpt-4o''), JStr (str ''claude'')]),
        ConfigUpdate apiKey_setting sample_key,
        HttpRequest (chat_request sample_key (JStr (str ''hello''))),
        PostMessage 0 (chatResponse_message (JStr (str ''Hi!''))),
        RevealPanel 0, DisposePanel 0, CreatePanel 1, DisposePanel 1]\<rparr>"
proof -
  let ?e1 = "\<lparr>http = Resolved \<lparr>status = 200, data = two_models\<rparr>, update_rejects = False\<rparr>"
  let ?e2 = "\<lparr>http = Resolved \<lparr>status = 200, data = JObj [(str ''content'', JStr (str ''Hi!''))]\<rparr>,
         update_rejects = False\<rparr>"
  let ?s1 = "\<lparr>currentPanel = Some 0, live = [0], nextPanel = 1, config = cfg,
      trace = [CreatePanel 0]\<rparr>"
  let ?s2 = "\<lparr>currentPanel = Some 0, live = [0], nextPanel = 1,
      config = cfg(apiKey_setting \<mapsto> sample_key),
      trace = [CreatePanel 0, HttpRequest (models_request sample_key),
        PostMessage 0 (apiKeyValidated_message [JStr (str ''gpt-4o''), JStr (str ''claude'')]),
        ConfigUpdate apiKey_setting sample_key]\<rparr>"
  let ?s3 = "?s2\<lparr>trace := trace ?s2 @
        [HttpRequest (chat_request sample_key (JStr (str ''hello''))),
         PostMessage 0 (chatResponse_message (JStr (str ''Hi!'')))]\<rparr>"
  have 1: "step OpenChat (activate cfg) = ?s1"
    by (simp add: openChat_step activate_def)
  have 2: "step (WebviewMessage (validateApiKey_message (str ''0123456789abcdefghij0123456789'')) ?e1)
      ?s1 = ?s2"
    using validation_ok [of ?e1 "\<lparr>status = 200, data = two_models\<rparr>"
        "[JObj [(str ''model'', JStr (str ''gpt-4o'')), (str ''pricing'', JNum 2)],
          JObj [(str ''description'', JNull), (str ''model'', JStr (str ''claude''))]]"
        sample_key 0 ?s1]
    by (simp add: dispatch_validateApiKey [of _ 0] validateApiKey_command two_models_def
        has_fields_def sample_key_def)
  have 3: "step (WebviewMessage (sendChat_message (JStr (str ''hello''))) ?e2) ?s2 = ?s3"
    by (simp add: dispatch_sendChat [of _ 0] sendChat_command chat_ok configuration_get_def
        sample_key_def has_fields_def)
  have 4: "step OpenChat ?s3 = ?s3\<lparr>trace := trace ?s3 @ [RevealPanel 0]\<rparr>"
    by (simp add: openChat_step)
  have 5: "run [PanelClosed 0, OpenChat, Deactivate] (?s3\<lparr>trace := trace ?s3 @ [RevealPanel 0]\<rparr>) =
     \<lparr>currentPanel = None, live = [], nextPanel = 2,
      config = cfg(apiKey_setting \<mapsto> sample_key),
      trace = [CreatePanel 0,
        HttpRequest (models_request sample_key),
        PostMessage 0 (apiKeyValidated_message [JStr (str ''gpt-4o''), JStr (str ''claude'')]),
        ConfigUpdate apiKey_setting sample_key,
        HttpRequest (chat_request sample_key (JStr (str ''hello''))),
        PostMessage 0 (chatResponse_message (JStr (str ''Hi!''))),
        RevealPanel 0, DisposePanel 0, CreatePanel 1, DisposePanel 1]\<rparr>"
    by (simp add: panel_dispose_step openChat_step deactivate_def)
  show ?thesis
    unfolding sample_session_def run.simps 1 2 3 4 using 5 by simp
qed

text \<open>
  C5. Whatever the sequence of commands, panel closings, webview messages and
  deactivations after activation, every HTTP request the extension has issued is a GET to
  \<^verbatim>\<open>https://api.qbraid.com/api/chat/models\<close> or a POST to \<^verbatim>\<open>https://api.qbraid.com/api/chat\<close>.
  (The webview script issues no request of its own.)
\<close>

theorem two_endpoints:
  "list_all endpoint (requests_of (trace (run evs (activate cfg))))"
proof -
  from run_effects [of evs "activate cfg"] show ?thesis by (auto simp: activate_def)
qed

theorem two_endpoints_witness:
  "list_all endpoint (requests_of (trace (run sample_session (activate Map.empty)))) \<and>
   requests_of (trace (run sample_session (activate Map.empty))) =
     [\<lparr>req_method = GET, req_url = str ''https://api.qbraid.com/api/chat/models'',
       req_headers = [(str ''api-key'', sample_key)], req_body = None\<rparr>,
      \<lparr>req_method = POST, req_url = str ''https://api.qbraid.com/api/chat'',
       req_headers = [(str ''api-key'', sample_key),
                      (str ''Content-Type'', JStr (str ''application/json''))],
       req_body = Some (JObj [(str ''prompt'', JStr (str ''hello''))])\<rparr>]"
  using two_endpoints [of sample_session Map.empty]
  by (simp add: sample_session_run models_request_def chat_request_def models_url_def
      chat_url_def)

text \<open>
  C6. Whatever the sequence of events after activation, every call of the configuration's
  \<^verbatim>\<open>update\<close> is for the key \<^verbatim>\<open>qbraidChat.apiKey\<close> and every other key of the configuration has
  the value it had at activation; and an event that is not a \<^verbatim>\<open>validateApiKey\<close> message
  (the command, a closing, a deactivation, any other message) leaves the whole
  configuration as it is and calls no \<^verbatim>\<open>update\<close>; in particular \<^verbatim>\<open>handleChatRequest\<close> never
  changes the configuration. The configuration is the only durable store of the model, as
  of the code.
\<close>

theorem single_persisted_value:
  "(\<forall>w \<in> set (config_writes (trace (run evs (activate cfg)))). fst w = apiKey_setting) \<and>
   (\<forall>j. j \<noteq> apiKey_setting \<longrightarrow> config (run evs (activate cfg)) j = cfg j) \<and>
   ((\<forall>m e. ev = WebviewMessage m e \<longrightarrow> \<not> is_validateApiKey m) \<longrightarrow>
      config (step ev s) = config s \<and>
      config_writes (trace (step ev s)) = config_writes (trace s)) \<and>
   config (handleChatRequest e' x panel s) = config s \<and>
   config_writes (trace (handleChatRequest e' x panel s)) = config_writes (trace s)"
proof -
  from chat_step [of e' x panel s]
  have "config (handleChatRequest e' x panel s) = config s \<and>
   config_writes (trace (handleChatRequest e' x panel s)) = config_writes (trace s)"
    by auto
  moreover from run_effects [of evs "activate cfg"]
  have "(\<forall>w \<in> set (config_writes (trace (run evs (activate cfg)))). fst w = apiKey_setting) \<and>
   (\<forall>j. j \<noteq> apiKey_setting \<longrightarrow> config (run evs (activate cfg)) j = cfg j)"
    by (auto simp: activate_def)
  moreover from step_effects [of ev s]
  have "(\<forall>m e. ev = WebviewMessage m e \<longrightarrow> \<not> is_validateApiKey m) \<longrightarrow>
      config (step ev s) = config s \<and>
      config_writes (trace (step ev s)) = config_writes (trace s)"
    by auto
  ultimately show ?thesis by blast
qed

theorem single_persisted_value_witness:
  "config_writes (trace (run sample_session (activate font_setting))) =
     [(str ''qbraidChat.apiKey'', sample_key)] \<and>
   config (run sample_session (activate font_setting)) (str ''editor.fontSize'') =
     Some (JNum 14) \<and>
   config (step (WebviewMessage (sendChat_message (JStr (str ''hello'')))
             \<lparr>http = Rejected None, update_rejects = False\<rparr>) (panel_open font_setting)) =
     font_setting"
  using single_persisted_value [of sample_session font_setting
      "WebviewMessage (sendChat_message (JStr (str ''hello'')))
         \<lparr>http = Rejected None, update_rejects = False\<rparr>" "panel_open font_setting"]
  by (simp add: sample_session_run apiKey_setting_def font_setting_def is_validateApiKey_def
      sendChat_command panel_open_simps)

subsection \<open>The panel\<close>

lemma reachable_panel_inv: "panel_inv (run evs (activate cfg))"
  by (rule run_panel_inv) (rule activate_panel_inv)

text \<open>
  C1. In every state reached after activation at most one panel is live, and it is the one
  in \<^verbatim>\<open>currentPanel\<close>. Invoking \<^verbatim>\<open>openChat\<close> there while \<^verbatim>\<open>currentPanel\<close> is defined only
  reveals that panel: no panel is created and nothing else changes. Only when
  \<^verbatim>\<open>currentPanel\<close> is undefined (and then no panel is live) does it create a panel, which
  becomes the one live panel.
\<close>

theorem single_panel:
  "s = run evs (activate cfg) \<Longrightarrow>
   length (live s) \<le> 1 \<and>
   (case currentPanel s of
      Some p \<Rightarrow> live s = [p] \<and> openChat s = s\<lparr>trace := trace s @ [RevealPanel p]\<rparr>
    | None \<Rightarrow>
        live s = [] \<and>
        openChat s =
          s\<lparr>currentPanel := Some (nextPanel s), live := [nextPanel s],
            nextPanel := Suc (nextPanel s), trace := trace s @ [CreatePanel (nextPanel s)]\<rparr>)"
proof -
  assume "s = run evs (activate cfg)"
  then have inv: "panel_inv s" by (simp add: reachable_panel_inv)
  show ?thesis
  proof (cases "currentPanel s")
    case None
    with inv openChat_step(2) [OF None] show ?thesis by (simp add: panel_inv_def)
  next
    case (Some p)
    with inv openChat_step(1) [OF Some] show ?thesis by (simp add: panel_inv_def)
  qed
qed

theorem single_panel_witness:
  "length (live (run [OpenChat, OpenChat] (activate Map.empty))) \<le> 1 \<and>
   live (run [OpenChat, OpenChat] (activate Map.empty)) = [0] \<and>
   trace (openChat (run [OpenChat, OpenChat] (activate Map.empty))) =
     [CreatePanel 0, RevealPanel 0, RevealPanel 0] \<and>
   live (run [OpenChat, PanelClosed 0] (activate Map.empty)) = [] \<and>
   live (openChat (run [OpenChat, PanelClosed 0] (activate Map.empty))) = [1]"
proof -
  have a: "run [OpenChat, OpenChat] (activate Map.empty) =
      \<lparr>currentPanel = Some 0, live = [0], nextPanel = 1, config = Map.empty,
       trace = [CreatePanel 0, RevealPanel 0]\<rparr>"
    by (simp add: openChat_step activate_def)
  have b: "run [OpenChat, PanelClosed 0] (activate Map.empty) =
      \<lparr>currentPanel = None, live = [], nextPanel = 1, config = Map.empty,
       trace = [CreatePanel 0, DisposePanel 0]\<rparr>"
    by (simp add: openChat_step panel_dispose_step activate_def)
  note c = single_panel [OF refl, of "[OpenChat, OpenChat]" Map.empty, unfolded a]
    single_panel [OF refl, of "[OpenChat, PanelClosed 0]" Map.empty, unfolded b]
  from c show ?thesis unfolding a b by simp
qed

text \<open>
  C10. In every state reached after activation, disposing a live panel resets
  \<^verbatim>\<open>currentPanel\<close> to undefined and leaves no panel live, and the next \<^verbatim>\<open>openChat\<close> creates a
  panel that is not the disposed one and is then the one live panel. \<^verbatim>\<open>deactivate\<close> disposes
  the current panel when there is one, after which no panel is live, and changes nothing
  otherwise.
\<close>

theorem panel_lifecycle:
  "s = run evs (activate cfg) \<Longrightarrow>
   (\<forall>p \<in> set (live s).
      currentPanel (panel_dispose p s) = None \<and>
      live (panel_dispose p s) = [] \<and>
      nextPanel s \<noteq> p \<and>
      openChat (panel_dispose p s) =
        s\<lparr>currentPanel := Some (nextPanel s), live := [nextPanel s],
          nextPanel := Suc (nextPanel s),
          trace := trace s @ [DisposePanel p, CreatePanel (nextPanel s)]\<rparr>) \<and>
   (case currentPanel s of
      Some p \<Rightarrow>
        deactivate s = panel_dispose p s \<and>
        deactivate s = s\<lparr>currentPanel := None, live := [], trace := trace s @ [DisposePanel p]\<rparr>
    | None \<Rightarrow> deactivate s = s)"
proof -
  assume "s = run evs (activate cfg)"
  then have inv: "panel_inv s" by (simp add: reachable_panel_inv)
  have d: "deactivate s = panel_dispose p s" if "currentPanel s = Some p" for p
    using that by (simp add: deactivate_def)
  show ?thesis
  proof (cases "currentPanel s")
    case None
    with inv deactivate_step(2) [OF None] show ?thesis by (simp add: panel_inv_def)
  next
    case (Some p)
    from inv Some have l: "live s = [p]" "p < nextPanel s" by (auto simp: panel_inv_def)
    then have "p \<in> set (live s)" by simp
    from panel_dispose_step(1) [OF this] l deactivate_step(1) [OF inv Some] d [OF Some] Some
    show ?thesis by (simp add: openChat_step)
  qed
qed

theorem panel_lifecycle_witness:
  "currentPanel (panel_dispose 0 (run [OpenChat] (activate Map.empty))) = None \<and>
   openChat (panel_dispose 0 (run [OpenChat] (activate Map.empty))) =
     \<lparr>currentPanel = Some 1, live = [1], nextPanel = 2, config = Map.empty,
      trace = [CreatePanel 0, DisposePanel 0, CreatePanel 1]\<rparr> \<and>
   deactivate (run [OpenChat] (activate Map.empty)) =
     \<lparr>currentPanel = None, live = [], nextPanel = 1, config = Map.empty,
      trace = [CreatePanel 0, DisposePanel 0]\<rparr> \<and>
   deactivate (run [] (activate Map.empty)) = activate Map.empty"
proof -
  have a: "run [OpenChat] (activate Map.empty) =
      \<lparr>currentPanel = Some 0, live = [0], nextPanel = 1, config = Map.empty,
       trace = [CreatePanel 0]\<rparr>"
    by (simp add: openChat_step activate_def)
  have b: "currentPanel (activate Map.empty) = None" "live (activate Map.empty) = []"
    by (simp_all add: activate_def)
  have c: "run [] (activate Map.empty) = activate Map.empty" by simp
  note d = panel_lifecycle [OF refl, of "[OpenChat]" Map.empty, unfolded a]
    panel_lifecycle [OF refl, of "[]" Map.empty, unfolded c]
  from d show ?thesis unfolding a c by (simp add: b panel_dispose_step)
qed

subsection \<open>The model dropdown\<close>

lemma sendPrompt_outbox:
  "outbox (sendPrompt w) =
     outbox w @
     (if trim (promptInput_value w) = [] then []
      else [sendChat_message (JStr (trim (promptInput_value w)))])"
  by (simp add: sendPrompt_def Let_def vscode_postMessage_def appendMessage_def
      sendChat_message_def)

lemma without_dropdown_step:
  "without_dropdown (webview_step ev w) =
     (if is_ModelSelected ev then without_dropdown w
      else without_dropdown (webview_step ev (without_dropdown w)))"
proof (cases ev)
  case (ApiKeyInput v)
  then show ?thesis
    by (simp add: without_dropdown_def apiKey_input_def Let_def vscode_postMessage_def)
next
  case (PromptTyped v)
  then show ?thesis by (simp add: without_dropdown_def)
next
  case (ModelSelected i)
  then show ?thesis by (simp add: without_dropdown_def)
next
  case SendClicked
  then show ?thesis
    by (simp add: without_dropdown_def sendPrompt_def Let_def vscode_postMessage_def
        appendMessage_def)
next
  case (KeyPressed k)
  then show ?thesis
    by (simp add: without_dropdown_def sendPrompt_def Let_def vscode_postMessage_def
        appendMessage_def)
next
  case (HostMessage m)
  then show ?thesis
    by (simp add: without_dropdown_def window_message_def Let_def appendMessage_def
        split: sum.splits jsvalue.splits)
qed

lemma without_dropdown_cong:
  "without_dropdown w = without_dropdown w' \<Longrightarrow> \<not> is_ModelSelected ev \<Longrightarrow>
   without_dropdown (webview_step ev w) = without_dropdown (webview_step ev w')"
  using without_dropdown_step [of ev w] without_dropdown_step [of ev w'] by simp

lemma without_dropdown_run:
  "without_dropdown w = without_dropdown w' \<Longrightarrow>
   without_dropdown (webview_run evs w) =
     without_dropdown (webview_run (filter (\<lambda>ev. \<not> is_ModelSelected ev) evs) w')"
proof (induction evs arbitrary: w w')
  case Nil
  then show ?case by simp
next
  case (Cons ev evs)
  show ?case
  proof (cases "is_ModelSelected ev")
    case True
    with Cons.prems have "without_dropdown (webview_step ev w) = without_dropdown w'"
      by (simp add: without_dropdown_step)
    from Cons.IH [OF this] True show ?thesis by simp
  next
    case False
    from Cons.IH [OF without_dropdown_cong [OF Cons.prems False]] False show ?thesis by simp
  qed
qed

lemma outbox_without_dropdown: "outbox (without_dropdown w) = outbox w"
  by (simp add: without_dropdown_def)

lemma chat_requests:
  "\<exists>new. trace (handleChatRequest e x panel s) = trace s @ new \<and>
     (requests_of new = [] \<or>
      requests_of new = [chat_request (configuration_get apiKey_setting s) x])"
proof (cases panel)
  case None
  then show ?thesis by (simp add: handleChatRequest_def)
next
  case (Some p)
  show ?thesis
  proof (cases "truthy (configuration_get apiKey_setting s)")
    case False
    from chat_no_key [OF this, of e x p] Some show ?thesis by simp
  next
    case k: True
    show ?thesis
    proof (cases "http e")
      case (Rejected ro)
      from chat_rejected [OF k this, of x p] Some show ?thesis by simp
    next
      case (Resolved r)
      show ?thesis
      proof (cases "status r = 200")
        case False
        from chat_other_status [OF k Resolved False, of x p] Some show ?thesis by simp
      next
        case True
        show ?thesis
        proof (cases "has_fields (data r)")
          case True
          from chat_ok [OF k Resolved \<open>status r = 200\<close> True, of x p] Some
          show ?thesis by simp
        next
          case False
          from chat_throws [OF k Resolved \<open>status r = 200\<close> False, of x p] Some
          show ?thesis by simp
        qed
      qed
    qed
  qed
qed

text \<open>
  C9. The message \<^verbatim>\<open>sendPrompt\<close> posts consists of the command and the trimmed prompt only;
  the messages a page has posted after any sequence of events are the same when every
  choice in the model dropdown is left out and whatever was selected at the start; and the
  only request \<^verbatim>\<open>handleChatRequest\<close> can issue is the POST whose body consists of the prompt
  only. So no message to the host and no request to the service depends on the selection.
\<close>

theorem model_never_sent:
  "outbox (sendPrompt w) =
     outbox w @
     (if trim (promptInput_value w) = [] then []
      else [JObj [(str ''command'', JStr (str ''sendChat'')),
                  (str ''prompt'', JStr (trim (promptInput_value w)))]]) \<and>
   outbox (webview_run evs (w\<lparr>modelSelect_selectedIndex := i\<rparr>)) =
     outbox (webview_run (filter (\<lambda>ev. \<not> is_ModelSelected ev) evs) w) \<and>
   (\<exists>new. trace (handleChatRequest e x panel s) = trace s @ new \<and>
      (requests_of new = [] \<or>
       requests_of new =
         [\<lparr>req_method = POST, req_url = chat_url,
           req_headers = [(str ''api-key'', configuration_get apiKey_setting s),
                          (str ''Content-Type'', JStr (str ''application/json''))],
           req_body = Some (JObj [(str ''prompt'', x)])\<rparr>]))"
proof -
  have "without_dropdown (w\<lparr>modelSelect_selectedIndex := i\<rparr>) = without_dropdown w"
    by (simp add: without_dropdown_def)
  from without_dropdown_run [OF this, of evs]
  have "outbox (without_dropdown (webview_run evs (w\<lparr>modelSelect_selectedIndex := i\<rparr>))) =
     outbox (without_dropdown (webview_run (filter (\<lambda>ev. \<not> is_ModelSelected ev) evs) w))"
    by simp
  then have "outbox (webview_run evs (w\<lparr>modelSelect_selectedIndex := i\<rparr>)) =
     outbox (webview_run (filter (\<lambda>ev. \<not> is_ModelSelected ev) evs) w)"
    by (simp only: outbox_without_dropdown)
  with sendPrompt_outbox [of w] chat_requests [of e x panel s] show ?thesis
    by (simp add: sendChat_message_def chat_request_def)
qed

lemma trim_hello: "trim (str '' hello '') = str ''hello''"
  by (simp add: trim_def str_def isWhiteSpace_def)

lemma sample_page_outbox:
  "outbox (webview_run (filter (\<lambda>ev. \<not> is_ModelSelected ev) sample_page_events)
      getWebviewContent) =
   [JObj [(str ''command'', JStr (str ''sendChat'')), (str ''prompt'', JStr (str ''hello''))]]"
  by (simp add: sample_page_events_def getWebviewContent_def window_message_def
      apiKeyValidated_message_def sendPrompt_def Let_def trim_hello vscode_postMessage_def
      appendMessage_def)

theorem model_never_sent_witness:
  "outbox (webview_run sample_page_events (getWebviewContent\<lparr>modelSelect_selectedIndex := 0\<rparr>)) =
     [JObj [(str ''command'', JStr (str ''sendChat'')), (str ''prompt'', JStr (str ''hello''))]] \<and>
   modelSelect_selectedIndex
     (webview_run sample_page_events (getWebviewContent\<lparr>modelSelect_selectedIndex := 0\<rparr>)) = 1"
proof -
  have "modelSelect_selectedIndex
     (webview_run sample_page_events (getWebviewContent\<lparr>modelSelect_selectedIndex := 0\<rparr>)) = 1"
    by (simp add: sample_page_events_def getWebviewContent_def window_message_def
      apiKeyValidated_message_def sendPrompt_def Let_def trim_hello vscode_postMessage_def
      appendMessage_def)
  with model_never_sent [of getWebviewContent sample_page_events 0] show ?thesis
    by (simp only: sample_page_outbox)
qed

end
